theory Spec2Isabelle
  imports Complex_Main
begin

section \<open>Python values used by the notebooks\<close>

text \<open>
  The notebooks are Python clients of a REST service. Everything they receive is the
  status code and the decoded JSON body of an HTTP response. A decoded body is a value of
  \<open>json\<close>; an object is kept as an association list read with \<open>map_of\<close>, and
  numbers are integers. A request always gets a response whose body decodes: connection
  failures and bodies that are not JSON are not part of the model.
\<close>

datatype json =
    JNull
  | JBool bool
  | JNum int
  | JStr string
  | JArr "json list"
  | JObj "(string \<times> json) list"

record response =
  status_code :: int
  body :: json

text \<open>
  Every \<^verbatim>\<open>assert cond, message\<close> of the cells modelled here is one constructor of
  \<open>message\<close>; the constructor's argument is the value that the f-string of the message
  interpolates (the listing of the experiments is left out of its message).
\<close>

datatype message =
    LoginFailed int
  | UserIdMissing
  | TokenMissing
  | GetJobStatusFailed json
  | JobFailed string
  | DownloadBundleFailed json
  | CancelJobFailed json
  | DeleteExperimentFailed json
  | DeleteTrainDatasetFailed json
  | DeleteValDatasetFailed json
  | ListExperimentFailed
  | NoBaseExperiment

datatype error =
    AssertionError message
  | KeyError string
  | TypeError
  | AttributeError
  | HTTPError int

text \<open>The value a Python function hands back: \<^verbatim>\<open>None\<close> or a string.\<close>

datatype pyval = PyNone | PyStr string

text \<open>\<^verbatim>\<open>j[k]\<close> for a string key: only a dict can be subscripted by a string.\<close>

fun getitem :: "json \<Rightarrow> string \<Rightarrow> error + json" where
  "getitem (JObj kvs) k = (case map_of kvs k of None \<Rightarrow> Inl (KeyError k) | Some v \<Rightarrow> Inr v)"
| "getitem _ k = Inl TypeError"

text \<open>\<^verbatim>\<open>j.keys()\<close>: only a dict has the method.\<close>

fun keys_py :: "json \<Rightarrow> error + string list" where
  "keys_py (JObj kvs) = Inr (map fst kvs)"
| "keys_py _ = Inl AttributeError"

subsection \<open>\<^verbatim>\<open>str.title()\<close> on ASCII text\<close>

definition is_upper :: "char \<Rightarrow> bool" where
  "is_upper c = (65 \<le> (of_char c :: nat) \<and> (of_char c :: nat) \<le> 90)"

definition is_lower :: "char \<Rightarrow> bool" where
  "is_lower c = (97 \<le> (of_char c :: nat) \<and> (of_char c :: nat) \<le> 122)"

definition is_cased :: "char \<Rightarrow> bool" where
  "is_cased c = (is_upper c \<or> is_lower c)"

definition to_lower :: "char \<Rightarrow> char" where
  "to_lower c = (if is_upper c then char_of ((of_char c :: nat) + 32) else c)"

definition to_upper :: "char \<Rightarrow> char" where
  "to_upper c = (if is_lower c then char_of ((of_char c :: nat) - 32) else c)"

text \<open>
  \<^verbatim>\<open>s.title()\<close>: a letter that follows a letter is lowered, any other letter is raised;
  characters that are not ASCII letters are kept and start a new word.
\<close>

fun title_from :: "bool \<Rightarrow> string \<Rightarrow> string" where
  "title_from previous_is_cased [] = []"
| "title_from previous_is_cased (c # cs) =
     (if previous_is_cased then to_lower c else to_upper c) # title_from (is_cased c) cs"

definition title :: "string \<Rightarrow> string" where
  "title s = title_from False s"

text \<open>\<^verbatim>\<open>response.json()["status"].title()\<close>; only a string has the method.\<close>

definition status_title :: "response \<Rightarrow> error + string" where
  "status_title r =
     (case getitem (body r) ''status'' of
        Inl e \<Rightarrow> Inl e
      | Inr (JStr s) \<Rightarrow> Inr (title s)
      | Inr _ \<Rightarrow> Inl AttributeError)"

section \<open>Requests and the trace of effects\<close>

datatype http_method = GET | POST | DELETE

record request =
  http_method :: http_method
  url :: string
  headers :: "(string \<times> string) list"
  data :: "json option"

text \<open>
  The lines \<^verbatim>\<open>wait_for_job\<close> prints, one constructor for each of its \<^verbatim>\<open>print\<close>
  statements:
  \<^item> \<open>Waiting\<close> is \<^verbatim>\<open>print("Waiting for job to complete...")\<close>;
  \<^item> \<open>Status s\<close> is \<^verbatim>\<open>print(status, end="", flush=True)\<close>;
  \<^item> \<open>NewStatus s\<close> is \<^verbatim>\<open>print(f"\n{status}", end="", flush=True)\<close>;
  \<^item> \<open>Dot\<close> is \<^verbatim>\<open>print(".", end="", flush=True)\<close>;
  \<^item> \<open>Timeout t\<close> is \<^verbatim>\<open>print(f"Job timeout after {timeout} seconds.")\<close>;
  \<^item> \<open>JobStatus s\<close> is \<^verbatim>\<open>print(f"\nJob status: {status}")\<close>.
\<close>

datatype out =
    Waiting
  | Status string
  | NewStatus string
  | Dot
  | Timeout real
  | JobStatus string

text \<open>
  What a run does, in order: an HTTP call with the response it got, a \<^verbatim>\<open>time.sleep\<close>
  of so many seconds, a line printed by \<^verbatim>\<open>wait_for_job\<close>, a file written.
\<close>

datatype event =
    Call request response
  | Sleep nat
  | Print out
  | WriteFile string

type_synonym 'a outcome = "event list \<times> (error + 'a)"

definition get_req :: "string \<Rightarrow> (string \<times> string) list \<Rightarrow> request" where
  "get_req endpoint hs = \<lparr>http_method = GET, url = endpoint, headers = hs, data = None\<rparr>"

text \<open>Put the events already performed in front of what the rest of the run does.\<close>

definition emit :: "event list \<Rightarrow> 'a outcome option \<Rightarrow> 'a outcome option" where
  "emit evs r = map_option (\<lambda>(tr, x). (evs @ tr, x)) r"

section \<open>The job poller\<close>

text \<open>
  The environment of \<^verbatim>\<open>wait_for_job\<close>: the first reading of the clock
  (\<^verbatim>\<open>start_time = time.time()\<close>), the response to the first GET, and for each turn of
  the loop the response to its GET and the reading of the clock at its timeout test. Clock
  readings and the timeout are real numbers of seconds.
\<close>

record poll =
  reply :: response
  clock :: real

text \<open>
  The \<^verbatim>\<open>while True\<close> loop together with the \<^verbatim>\<open>print\<close> that follows it. The loop has no
  bound of its own, so it runs over the list of the polls the environment answers;
  \<open>None\<close> says that the run is still inside the loop when these are used up. A run that
  ends hands back \<^verbatim>\<open>None\<close>, since the function has no \<^verbatim>\<open>return\<close> statement.
\<close>

fun poll_loop ::
  "string \<Rightarrow> (string \<times> string) list \<Rightarrow> real \<Rightarrow> real \<Rightarrow> string \<Rightarrow> poll list
     \<Rightarrow> pyval outcome option" where
  "poll_loop endpoint hs timeout start_time status [] =
     (if status \<notin> set [''Pending'', ''Running''] then
        (if status = ''Done'' then Some ([Print (JobStatus status)], Inr PyNone)
         else Some ([], Inl (AssertionError (JobFailed status))))
      else None)"
| "poll_loop endpoint hs timeout start_time status (p # ps) =
     (if status \<notin> set [''Pending'', ''Running''] then
        (if status = ''Done'' then Some ([Print (JobStatus status)], Inr PyNone)
         else Some ([], Inl (AssertionError (JobFailed status))))
      else
        emit [Sleep 5, Call (get_req endpoint hs) (reply p)]
          (if status_code (reply p) \<noteq> 200 then
             Some ([], Inl (AssertionError (GetJobStatusFailed (body (reply p)))))
           else
             (case status_title (reply p) of
                Inl e \<Rightarrow> Some ([], Inl e)
              | Inr status_new \<Rightarrow>
                  (let status' = (if status_new \<noteq> status then status_new else status) in
                   emit [Print (if status_new \<noteq> status then NewStatus status' else Dot)]
                     (if clock p - start_time > timeout then
                        Some ([Print (Timeout timeout), Print (JobStatus status')], Inr PyNone)
                      else poll_loop endpoint hs timeout start_time status' ps)))))"

text \<open>
  \<^verbatim>\<open>wait_for_job(endpoint, headers, timeout)\<close>, followed by what its environment
  answers.
\<close>

definition wait_for_job ::
  "string \<Rightarrow> (string \<times> string) list \<Rightarrow> real \<Rightarrow> real \<Rightarrow> response \<Rightarrow> poll list
     \<Rightarrow> pyval outcome option" where
  "wait_for_job endpoint hs timeout start_time r0 polls =
     emit [Call (get_req endpoint hs) r0]
       (if status_code r0 \<noteq> 200 then
          Some ([], Inl (AssertionError (GetJobStatusFailed (body r0))))
        else
          (case status_title r0 of
             Inl e \<Rightarrow> Some ([], Inl e)
           | Inr status \<Rightarrow>
               emit [Print Waiting, Print (Status status)]
                 (poll_loop endpoint hs timeout start_time status polls)))"

text \<open>
  A well-formed answer of the job endpoint: status 200 and a JSON object whose
  \<^verbatim>\<open>status\<close> is the given wire text.
\<close>

definition job_reply :: "string \<Rightarrow> response" where
  "job_reply s = \<lparr>status_code = 200, body = JObj [(''status'', JStr s)]\<rparr>"

text \<open>The answer says that the job is still pending or running.\<close>

definition in_progress :: "response \<Rightarrow> bool" where
  "in_progress r =
     (status_code r = 200 \<and> (status_title r = Inr ''Pending'' \<or> status_title r = Inr ''Running''))"

section \<open>The notebook cells around the poller\<close>

text \<open>
  A cell is a straight line of requests. The responses it gets are its last arguments,
  in the order in which it sends the requests; its result is the trace of what it did and
  either the exception that stopped it or its value. Only \<^verbatim>\<open>wait_for_job\<close> reports
  through its output, so the prints of the other cells are left out of their traces.
\<close>

definition post_req :: "string \<Rightarrow> (string \<times> string) list \<Rightarrow> request" where
  "post_req endpoint hs = \<lparr>http_method = POST, url = endpoint, headers = hs, data = None\<rparr>"

definition delete_req :: "string \<Rightarrow> (string \<times> string) list \<Rightarrow> request" where
  "delete_req endpoint hs = \<lparr>http_method = DELETE, url = endpoint, headers = hs, data = None\<rparr>"

text \<open>\<^verbatim>\<open>f"{base_url}/experiments/{experiment_id}/jobs/{job_id}"\<close>\<close>

definition job_endpoint :: "string \<Rightarrow> string \<Rightarrow> string \<Rightarrow> string" where
  "job_endpoint base_url experiment_id job_id =
     base_url @ ''/experiments/'' @ experiment_id @ ''/jobs/'' @ job_id"

text \<open>
  The pattern of every cell: send a request, then
  \<^verbatim>\<open>assert response.status_code == code, f"... got {response.json()}."\<close>
\<close>

definition call_expect :: "request \<Rightarrow> response \<Rightarrow> int \<Rightarrow> (json \<Rightarrow> message) \<Rightarrow> unit outcome" where
  "call_expect q r code msg =
     ([Call q r], if status_code r = code then Inr () else Inl (AssertionError (msg (body r))))"

text \<open>
  Statements in sequence, and cells run top to bottom: what follows runs only when what
  came before raised nothing.
\<close>

definition and_then :: "'a outcome \<Rightarrow> ('a \<Rightarrow> 'b outcome) \<Rightarrow> 'b outcome" where
  "and_then m k =
     (case m of
        (tr, Inl e) \<Rightarrow> (tr, Inl e)
      | (tr, Inr x) \<Rightarrow> (case k x of (tr', r) \<Rightarrow> (tr @ tr', r)))"

subsection \<open>Job download\<close>

text \<open>
  The cell \<^emph>\<open>Job Download\<close> of the segmentation notebook: the status is read and compared
  as it came on the wire; the archive is fetched twice, the second time as a bundle export.
\<close>

definition download_job ::
  "string \<Rightarrow> string \<Rightarrow> string \<Rightarrow> (string \<times> string) list
     \<Rightarrow> response \<Rightarrow> response \<Rightarrow> response \<Rightarrow> unit outcome" where
  "download_job base_url experiment_id job_id hs r_status r_archive r_bundle =
     (let endpoint = job_endpoint base_url experiment_id job_id in
      case getitem (body r_status) ''status'' of
        Inl e \<Rightarrow> ([Call (get_req endpoint hs) r_status], Inl e)
      | Inr status \<Rightarrow>
          and_then ([Call (get_req endpoint hs) r_status], Inr ())
            (\<lambda>_. if status = JStr ''Done'' then
                    and_then
                      (call_expect (get_req (endpoint @ '':download'') hs) r_archive 200
                         DownloadBundleFailed)
                      (\<lambda>_. and_then ([WriteFile (job_id @ ''.tar.gz'')], Inr ())
                        (\<lambda>_. and_then
                           (call_expect
                              ((get_req (endpoint @ '':download'') hs)
                                 \<lparr>data := Some (JObj [(''export_type'', JStr ''monai_bundle'')])\<rparr>)
                              r_bundle 200 DownloadBundleFailed)
                           (\<lambda>_. ([WriteFile (job_id @ ''.tar.gz'')], Inr ()))))
                  else ([], Inr ())))"

text \<open>
  The download cell of the Auto3DSeg notebook: one streamed GET, checked with
  \<^verbatim>\<open>raise_for_status\<close>, which raises for the codes 400 to 599. The file has been
  written when \<^verbatim>\<open>os.path.exists\<close> is asserted, so that assertion holds.
\<close>

definition download_results ::
  "string \<Rightarrow> string \<Rightarrow> string \<Rightarrow> (string \<times> string) list
     \<Rightarrow> response \<Rightarrow> response \<Rightarrow> unit outcome" where
  "download_results base_url experiment_id infer_job_id hs r_status r_archive =
     (let endpoint = job_endpoint base_url experiment_id infer_job_id in
      case getitem (body r_status) ''status'' of
        Inl e \<Rightarrow> ([Call (get_req endpoint hs) r_status], Inl e)
      | Inr status \<Rightarrow>
          and_then ([Call (get_req endpoint hs) r_status], Inr ())
            (\<lambda>_. if status = JStr ''Done'' then
                    and_then
                      ([Call (get_req (endpoint @ '':download'') hs) r_archive],
                       if 400 \<le> status_code r_archive \<and> status_code r_archive < 600
                       then Inl (HTTPError (status_code r_archive)) else Inr ())
                      (\<lambda>_. ([WriteFile (infer_job_id @ ''.tar.gz'')], Inr ()))
                  else ([], Inr ())))"

subsection \<open>Cleaning up\<close>

text \<open>The cell that cancels the job when its wire status is not \<^verbatim>\<open>Done\<close> and deletes the experiment.\<close>

definition delete_experiment ::
  "string \<Rightarrow> string \<Rightarrow> string \<Rightarrow> (string \<times> string) list
     \<Rightarrow> response \<Rightarrow> response \<Rightarrow> response \<Rightarrow> unit outcome" where
  "delete_experiment base_url experiment_id job_id hs r_status r_cancel r_delete =
     (let endpoint = job_endpoint base_url experiment_id job_id in
      case getitem (body r_status) ''status'' of
        Inl e \<Rightarrow> ([Call (get_req endpoint hs) r_status], Inl e)
      | Inr status \<Rightarrow>
          and_then ([Call (get_req endpoint hs) r_status], Inr ())
            (\<lambda>_. and_then
               (if status \<noteq> JStr ''Done'' then
                  call_expect (post_req (endpoint @ '':cancel'') hs) r_cancel 200 CancelJobFailed
                else ([], Inr ()))
               (\<lambda>_. call_expect (delete_req (base_url @ ''/experiments/'' @ experiment_id) hs)
                       r_delete 200 DeleteExperimentFailed)))"

text \<open>The cell that deletes the training dataset, then the validation dataset.\<close>

definition delete_datasets ::
  "string \<Rightarrow> string \<Rightarrow> string \<Rightarrow> (string \<times> string) list \<Rightarrow> response \<Rightarrow> response \<Rightarrow> unit outcome" where
  "delete_datasets base_url train_dataset_id val_dataset_id hs r_train r_val =
     and_then
       (call_expect (delete_req (base_url @ ''/datasets/'' @ train_dataset_id) hs) r_train 200
          DeleteTrainDatasetFailed)
       (\<lambda>_. call_expect (delete_req (base_url @ ''/datasets/'' @ val_dataset_id) hs) r_val 200
               DeleteValDatasetFailed)"

text \<open>The section \<^emph>\<open>Cleaning Up\<close>: the two cells, one after the other.\<close>

definition cleaning_up ::
  "string \<Rightarrow> string \<Rightarrow> string \<Rightarrow> string \<Rightarrow> string \<Rightarrow> (string \<times> string) list
     \<Rightarrow> response \<Rightarrow> response \<Rightarrow> response \<Rightarrow> response \<Rightarrow> response \<Rightarrow> unit outcome" where
  "cleaning_up base_url experiment_id job_id train_dataset_id val_dataset_id hs
       r_status r_cancel r_delete r_train r_val =
     and_then (delete_experiment base_url experiment_id job_id hs r_status r_cancel r_delete)
       (\<lambda>_. delete_datasets base_url train_dataset_id val_dataset_id hs r_train r_val)"

subsection \<open>Reading a trace\<close>

text \<open>The event is a request with this method to this URL.\<close>

definition sent :: "http_method \<Rightarrow> string \<Rightarrow> event \<Rightarrow> bool" where
  "sent m u e = (case e of Call q r \<Rightarrow> http_method q = m \<and> url q = u | _ \<Rightarrow> False)"

text \<open>The event is a request answered with HTTP 200.\<close>

definition answered_200 :: "event \<Rightarrow> bool" where
  "answered_200 e = (case e of Call q r \<Rightarrow> status_code r = 200 | _ \<Rightarrow> False)"

text \<open>The event is a request whose answer carries the wire status \<^verbatim>\<open>Done\<close>.\<close>

definition reported_done :: "event \<Rightarrow> bool" where
  "reported_done e =
     (case e of Call q r \<Rightarrow> getitem (body r) ''status'' = Inr (JStr ''Done'') | _ \<Rightarrow> False)"

text \<open>Every request of the trace carries these headers.\<close>

definition carries :: "(string \<times> string) list \<Rightarrow> event \<Rightarrow> bool" where
  "carries hs e = (case e of Call q r \<Rightarrow> headers q = hs | _ \<Rightarrow> True)"

text \<open>Every event that satisfies \<open>Q\<close> comes after an event that satisfies \<open>P\<close>.\<close>

fun preceded :: "(event \<Rightarrow> bool) \<Rightarrow> (event \<Rightarrow> bool) \<Rightarrow> event list \<Rightarrow> bool" where
  "preceded P Q [] = True"
| "preceded P Q (e # es) = (if Q e then False else (if P e then True else preceded P Q es))"

text \<open>
  The job of this endpoint was seen \<^verbatim>\<open>Done\<close>, or its cancellation was answered with 200.
\<close>

definition job_settled :: "string \<Rightarrow> event \<Rightarrow> bool" where
  "job_settled endpoint e =
     (sent GET endpoint e \<and> reported_done e \<or> sent POST (endpoint @ '':cancel'') e \<and> answered_200 e)"

subsection \<open>Login\<close>

text \<open>What the login cell leaves behind for the cells that follow it: \<^verbatim>\<open>user_id\<close>,
  \<^verbatim>\<open>token\<close>, \<^verbatim>\<open>base_url\<close> and \<^verbatim>\<open>headers\<close>.\<close>

record session =
  user_id :: json
  token :: json
  session_base_url :: string
  session_headers :: "(string \<times> string) list"

text \<open>
  The login cell. \<open>str_py\<close> is Python's formatting of a value inside an f-string
  (the text itself for a string); the request has no headers, and its body is
  \<^verbatim>\<open>json.dumps({"ngc_api_key": ngc_api_key})\<close>.
\<close>

definition login_req :: "string \<Rightarrow> string \<Rightarrow> request" where
  "login_req host_url ngc_api_key =
     \<lparr>http_method = POST, url = host_url @ ''/api/v1/login'', headers = [],
      data = Some (JObj [(''ngc_api_key'', JStr ngc_api_key)])\<rparr>"

definition login :: "(json \<Rightarrow> string) \<Rightarrow> string \<Rightarrow> string \<Rightarrow> response \<Rightarrow> session outcome" where
  "login str_py host_url ngc_api_key r =
     (let tr = [Call (login_req host_url ngc_api_key) r] in
      if status_code r \<noteq> 201 then (tr, Inl (AssertionError (LoginFailed (status_code r))))
      else
        (case keys_py (body r) of
           Inl e \<Rightarrow> (tr, Inl e)
         | Inr ks \<Rightarrow>
             if ''user_id'' \<notin> set ks then (tr, Inl (AssertionError UserIdMissing))
             else
               (case getitem (body r) ''user_id'' of
                  Inl e \<Rightarrow> (tr, Inl e)
                | Inr uid \<Rightarrow>
                    (case keys_py (body r) of
                       Inl e \<Rightarrow> (tr, Inl e)
                     | Inr ks' \<Rightarrow>
                         if ''token'' \<notin> set ks' then (tr, Inl (AssertionError TokenMissing))
                         else
                           (case getitem (body r) ''token'' of
                              Inl e \<Rightarrow> (tr, Inl e)
                            | Inr tok \<Rightarrow>
                                (tr, Inr \<lparr>user_id = uid, token = tok,
                                          session_base_url = host_url @ ''/api/v1/users/'' @ str_py uid,
                                          session_headers =
                                            [(''Authorization'', ''Bearer '' @ str_py tok)]\<rparr>))))))"

subsection \<open>Choice of the base experiment\<close>

text \<open>
  An entry of the experiment listing, with the four keys the Auto3DSeg notebook reads. The
  versions of one listing are values of one ordered type (numbers, or strings in Python's
  order). A listing is the status code of the response and its decoded entries.
\<close>

record 'v experiment_entry =
  exp_id :: string
  exp_name :: string
  network_arch :: string
  version :: 'v

record 'v listing =
  listing_code :: int
  entries :: "'v experiment_entry list"

definition is_auto3dseg :: "'v experiment_entry \<Rightarrow> bool" where
  "is_auto3dseg p = (network_arch p = ''monai_automl'' \<and> exp_name p = ''MONAI Auto3dSeg'')"

text \<open>
  \<^verbatim>\<open>sorted(automl_base_exps, key=lambda x: x["version"])[-1]["id"]\<close>: Python's
  \<^verbatim>\<open>sorted\<close> is stable, as \<open>sort_key\<close> is.
\<close>

definition find_base_experiment :: "('v::linorder) listing \<Rightarrow> error + string" where
  "find_base_experiment response =
     (if listing_code response \<noteq> 200 then Inl (AssertionError ListExperimentFailed)
      else
        (let res = entries response;
             automl_base_exps = filter is_auto3dseg res in
         if \<not> length automl_base_exps > 0 then Inl (AssertionError NoBaseExperiment)
         else
           (let base_experiment = last (sort_key version automl_base_exps) in
            Inr (exp_id base_experiment))))"

section \<open>Properties of the job poller\<close>

subsection \<open>Auxiliary facts\<close>

lemma status_update [simp]: "(if a \<noteq> b then a else b) = a"
  by simp

lemma emit_Some [simp]: "emit evs (Some (tr, x)) = Some (evs @ tr, x)"
  by (simp add: emit_def)

lemma emit_None [simp]: "emit evs None = None"
  by (simp add: emit_def)

lemma emit_eq_Some: "emit evs r = Some (tr, x) \<longleftrightarrow> (\<exists>tr'. r = Some (tr', x) \<and> tr = evs @ tr')"
  by (cases r) (auto simp: emit_def)

lemma title_Pending [simp]: "title ''Pending'' = ''Pending''" by code_simp

lemma title_Running [simp]: "title ''Running'' = ''Running''" by code_simp

lemma title_Done [simp]: "title ''Done'' = ''Done''" by code_simp

lemma title_Error [simp]: "title ''Error'' = ''Error''" by code_simp

lemma title_done: "title ''done'' = ''Done''" by code_simp

lemma status_title_job_reply [simp]: "status_title (job_reply s) = Inr (title s)"
  by (simp add: status_title_def job_reply_def)

lemma status_code_job_reply [simp]: "status_code (job_reply s) = 200"
  by (simp add: job_reply_def)

lemma poll_loop_terminal:
  "status \<noteq> ''Pending'' \<Longrightarrow> status \<noteq> ''Running'' \<Longrightarrow>
   poll_loop endpoint hs timeout start_time status polls =
     (if status = ''Done'' then Some ([Print (JobStatus status)], Inr PyNone)
      else Some ([], Inl (AssertionError (JobFailed status))))"
  by (cases polls) simp_all

lemma poll_loop_timeout:
  assumes "status = ''Pending'' \<or> status = ''Running''"
    and "\<forall>p \<in> set ps. in_progress (reply p) \<and> clock p - start_time \<le> timeout"
    and "in_progress (reply q)" and "clock q - start_time > timeout"
  shows "\<exists>tr s. poll_loop endpoint hs timeout start_time status (ps @ q # rest)
            = Some (tr @ [Print (Timeout timeout), Print (JobStatus s)], Inr PyNone)
          \<and> status_title (reply q) = Inr s \<and> length tr = 3 * length ps + 3"
  using assms
proof (induction ps arbitrary: status)
  case Nil
  then show ?case
    by (auto simp: in_progress_def Let_def)
next
  case (Cons p ps)
  from Cons.prems obtain s1 where s1: "status_title (reply p) = Inr s1" "s1 = ''Pending'' \<or> s1 = ''Running''"
    and code: "status_code (reply p) = 200" and early: "\<not> clock p - start_time > timeout"
    by (auto simp: in_progress_def)
  from Cons.prems have rest: "\<forall>p \<in> set ps. in_progress (reply p) \<and> clock p - start_time \<le> timeout"
    by simp
  from Cons.IH [OF s1(2) rest Cons.prems(3,4)]
  obtain tr s where ih: "poll_loop endpoint hs timeout start_time s1 (ps @ q # rest)
            = Some (tr @ [Print (Timeout timeout), Print (JobStatus s)], Inr PyNone)"
       "status_title (reply q) = Inr s" "length tr = 3 * length ps + 3"
    by blast
  have "poll_loop endpoint hs timeout start_time status ((p # ps) @ q # rest)
      = Some (([Sleep 5, Call (get_req endpoint hs) (reply p), Print (if s1 \<noteq> status then NewStatus s1 else Dot)] @ tr)
                 @ [Print (Timeout timeout), Print (JobStatus s)], Inr PyNone)"
    using Cons.prems(1) s1 code early ih(1) by (auto simp: Let_def)
  with ih(2,3) show ?case
    by (intro exI [of _ "[Sleep 5, Call (get_req endpoint hs) (reply p), Print (if s1 \<noteq> status then NewStatus s1 else Dot)] @ tr"] exI [of _ s]) simp
qed

lemma poll_loop_returns:
  "poll_loop endpoint hs timeout start_time status polls = Some (tr, Inr v) \<Longrightarrow>
   v = PyNone \<and> (\<exists>tr' s. tr = tr' @ [Print (JobStatus s)]
                 \<and> (s = ''Done'' \<or> (tr' \<noteq> [] \<and> last tr' = Print (Timeout timeout))))"
proof (induction polls arbitrary: status tr)
  case Nil
  then show ?case by (auto split: if_splits)
next
  case (Cons p ps)
  show ?case
  proof (cases "status = ''Pending'' \<or> status = ''Running''")
    case False
    with Cons.prems show ?thesis by (auto split: if_splits)
  next
    case True
    with Cons.prems obtain sn tr1 where sn: "status_title (reply p) = Inr sn" "status_code (reply p) = 200"
      and tr: "tr = [Sleep 5, Call (get_req endpoint hs) (reply p), Print (if sn \<noteq> status then NewStatus sn else Dot)] @ tr1"
      and r: "(if clock p - start_time > timeout
               then Some ([Print (Timeout timeout), Print (JobStatus sn)], Inr PyNone)
               else poll_loop endpoint hs timeout start_time sn ps) = Some (tr1, Inr v)"
      by (auto simp: emit_eq_Some Let_def split: if_splits sum.splits)
    show ?thesis
    proof (cases "clock p - start_time > timeout")
      case True
      with r have "tr1 = [Print (Timeout timeout), Print (JobStatus sn)]" "v = PyNone" by auto
      with tr show ?thesis
        by (intro conjI exI [of _ "[Sleep 5, Call (get_req endpoint hs) (reply p), Print (if sn \<noteq> status then NewStatus sn else Dot), Print (Timeout timeout)]"] exI [of _ sn]) auto
    next
      case False
      with r have "poll_loop endpoint hs timeout start_time sn ps = Some (tr1, Inr v)" by simp
      from Cons.IH [OF this] obtain tr' s where v: "v = PyNone" and t: "tr1 = tr' @ [Print (JobStatus s)]"
        and s: "s = ''Done'' \<or> (tr' \<noteq> [] \<and> last tr' = Print (Timeout timeout))"
        by blast
      from tr t s v show ?thesis
        by (intro conjI exI [of _ "[Sleep 5, Call (get_req endpoint hs) (reply p), Print (if sn \<noteq> status then NewStatus sn else Dot)] @ tr'"] exI [of _ s]) auto
    qed
  qed
qed

subsection \<open>The scripted run\<close>

text \<open>
  Claim C2. With the answers Pending, Pending, Running, Done observed at \<open>t0\<close>,
  \<open>t0 + 5\<close>, \<open>t0 + 10\<close> and \<open>t0 + 15\<close> and a timeout of at least 15 seconds (three
  polling intervals), \<^verbatim>\<open>wait_for_job\<close> returns after three sleeps, raises nothing, prints
  no timeout report and ends with the line \<^verbatim>\<open>Job status: Done\<close>.
\<close>

theorem wait_for_job_scripted:
  assumes "15 \<le> timeout"
  shows "wait_for_job endpoint hs timeout t0 (job_reply ''Pending'')
           [\<lparr>reply = job_reply ''Pending'', clock = t0 + 5\<rparr>,
            \<lparr>reply = job_reply ''Running'', clock = t0 + 10\<rparr>,
            \<lparr>reply = job_reply ''Done'', clock = t0 + 15\<rparr>]
         = Some ([Call (get_req endpoint hs) (job_reply ''Pending''), Print Waiting, Print (Status ''Pending''),
                  Sleep 5, Call (get_req endpoint hs) (job_reply ''Pending''), Print Dot,
                  Sleep 5, Call (get_req endpoint hs) (job_reply ''Running''), Print (NewStatus ''Running''),
                  Sleep 5, Call (get_req endpoint hs) (job_reply ''Done''), Print (NewStatus ''Done''),
                  Print (JobStatus ''Done'')], Inr PyNone)"
  using assms by (simp add: wait_for_job_def Let_def)

text \<open>An instance of C2: the timeout is exactly three intervals and the clock starts at 100.\<close>

theorem wait_for_job_scripted_witness:
  "(15::real) \<le> 15 \<and> wait_for_job ''job'' [] 15 100 (job_reply ''Pending'')
           [\<lparr>reply = job_reply ''Pending'', clock = 100 + 5\<rparr>,
            \<lparr>reply = job_reply ''Running'', clock = 100 + 10\<rparr>,
            \<lparr>reply = job_reply ''Done'', clock = 100 + 15\<rparr>]
         = Some ([Call (get_req ''job'' []) (job_reply ''Pending''), Print Waiting, Print (Status ''Pending''),
                  Sleep 5, Call (get_req ''job'' []) (job_reply ''Pending''), Print Dot,
                  Sleep 5, Call (get_req ''job'' []) (job_reply ''Running''), Print (NewStatus ''Running''),
                  Sleep 5, Call (get_req ''job'' []) (job_reply ''Done''), Print (NewStatus ''Done''),
                  Print (JobStatus ''Done'')], Inr PyNone)"
  using wait_for_job_scripted [of 15 "''job''" "[]" 100] by simp

subsection \<open>Giving up at the timeout\<close>

text \<open>
  Claim C3. When the first answer and every answer polled up to and including the first
  poll whose clock reading exceeds \<open>start_time + timeout\<close> say Pending or Running,
  \<^verbatim>\<open>wait_for_job\<close> returns at exactly that poll: it raises nothing, its last two lines
  are the timeout report and \<^verbatim>\<open>Job status:\<close> with the status polled last, which is
  Pending or Running and so neither Done nor a failed job, and no later poll is made.
\<close>

theorem wait_for_job_timeout:
  assumes "in_progress r0"
    and "\<forall>p \<in> set ps. in_progress (reply p) \<and> clock p - start_time \<le> timeout"
    and "in_progress (reply q)" and "clock q - start_time > timeout"
  shows "\<exists>tr s. wait_for_job endpoint hs timeout start_time r0 (ps @ q # rest)
            = Some (tr @ [Print (Timeout timeout), Print (JobStatus s)], Inr PyNone)
          \<and> status_title (reply q) = Inr s \<and> (s = ''Pending'' \<or> s = ''Running'')
          \<and> length tr = 3 * length ps + 6"
proof -
  from assms(1) obtain s0 where s0: "status_title r0 = Inr s0" "s0 = ''Pending'' \<or> s0 = ''Running''"
    and code: "status_code r0 = 200"
    by (auto simp: in_progress_def)
  from poll_loop_timeout [OF s0(2) assms(2,3,4), of endpoint hs rest]
  obtain tr s where l: "poll_loop endpoint hs timeout start_time s0 (ps @ q # rest)
            = Some (tr @ [Print (Timeout timeout), Print (JobStatus s)], Inr PyNone)"
       "status_title (reply q) = Inr s" "length tr = 3 * length ps + 3"
    by blast
  have "wait_for_job endpoint hs timeout start_time r0 (ps @ q # rest)
      = Some (([Call (get_req endpoint hs) r0, Print Waiting, Print (Status s0)] @ tr)
               @ [Print (Timeout timeout), Print (JobStatus s)], Inr PyNone)"
    using s0 code l(1) by (simp add: wait_for_job_def)
  moreover from assms(3) l(2) have "s = ''Pending'' \<or> s = ''Running''"
    by (auto simp: in_progress_def)
  ultimately show ?thesis using l(2,3)
    by (intro exI [of _ "[Call (get_req endpoint hs) r0, Print Waiting, Print (Status s0)] @ tr"] exI [of _ s]) simp
qed

text \<open>An instance of C3: Pending, then Running at 5 s and at 10 s, with a timeout of 7 s.\<close>

theorem wait_for_job_timeout_witness:
  "in_progress (job_reply ''Pending'')
   \<and> in_progress (reply \<lparr>reply = job_reply ''Running'', clock = 5\<rparr>)
   \<and> clock \<lparr>reply = job_reply ''Running'', clock = 5\<rparr> - 0 \<le> (7::real)
   \<and> in_progress (reply \<lparr>reply = job_reply ''Running'', clock = 10\<rparr>)
   \<and> clock \<lparr>reply = job_reply ''Running'', clock = 10\<rparr> - 0 > 7
   \<and> (\<exists>tr s. wait_for_job ''job'' [] 7 0 (job_reply ''Pending'')
          ([\<lparr>reply = job_reply ''Running'', clock = 5\<rparr>] @ \<lparr>reply = job_reply ''Running'', clock = 10\<rparr> # [])
            = Some (tr @ [Print (Timeout 7), Print (JobStatus s)], Inr PyNone)
          \<and> status_title (reply \<lparr>reply = job_reply ''Running'', clock = 10\<rparr>) = Inr s \<and> (s = ''Pending'' \<or> s = ''Running'')
          \<and> length tr = 3 * length [\<lparr>reply = job_reply ''Running'', clock = 5\<rparr>] + 6)"
proof -
  have a: "in_progress (job_reply ''Pending'')" by (simp add: in_progress_def)
  have b: "\<forall>p \<in> set [\<lparr>reply = job_reply ''Running'', clock = 5\<rparr>]. in_progress (reply p) \<and> clock p - 0 \<le> 7"
    by (simp add: in_progress_def)
  have c: "in_progress (reply \<lparr>reply = job_reply ''Running'', clock = 10\<rparr>)" by (simp add: in_progress_def)
  have d: "clock \<lparr>reply = job_reply ''Running'', clock = 10\<rparr> - 0 > 7" by simp
  from wait_for_job_timeout [OF a b c d, of "''job''" "[]" "[]"] a b c d show ?thesis by simp
qed

subsection \<open>The first status\<close>

text \<open>
  Claim C10. If the first answer has a title-cased status other than Pending and Running,
  \<^verbatim>\<open>wait_for_job\<close> returns at once whatever the timeout and the later answers are:
  one GET, no sleep, success for Done and \<^verbatim>\<open>Job failed with status\<close> otherwise. If the
  first answer says Pending or Running, the run does not end before a poll is answered,
  whatever the timeout is, and on the first poll it does the following, in every case
  after a sleep of 5 seconds and a second GET: it stops at the assertion on the status
  code when the code is not 200; it stops at the exception of reading the status when
  that raises; it gives up with the timeout report when the clock read after that GET is
  past the timeout; otherwise it goes on with the loop. So every run that ends has slept
  and sent a second GET before anything else.
\<close>

theorem wait_for_job_first_status:
  "(status_code r0 = 200 \<and> status_title r0 = Inr s \<and> s \<noteq> ''Pending'' \<and> s \<noteq> ''Running'' \<longrightarrow>
      wait_for_job endpoint hs timeout start_time r0 polls =
        (if s = ''Done''
         then Some ([Call (get_req endpoint hs) r0, Print Waiting, Print (Status s), Print (JobStatus s)], Inr PyNone)
         else Some ([Call (get_req endpoint hs) r0, Print Waiting, Print (Status s)],
                    Inl (AssertionError (JobFailed s)))))
   \<and> (in_progress r0 \<and> status_title r0 = Inr s \<longrightarrow>
        wait_for_job endpoint hs timeout start_time r0 [] = None
        \<and> (\<forall>p ps tr x. wait_for_job endpoint hs timeout start_time r0 (p # ps) = Some (tr, x) \<longrightarrow>
             (\<exists>tr'. tr = [Call (get_req endpoint hs) r0, Print Waiting, Print (Status s),
                          Sleep 5, Call (get_req endpoint hs) (reply p)] @ tr'))
        \<and> (status_code (reply p) \<noteq> 200 \<longrightarrow>
             wait_for_job endpoint hs timeout start_time r0 (p # ps) =
               Some ([Call (get_req endpoint hs) r0, Print Waiting, Print (Status s),
                      Sleep 5, Call (get_req endpoint hs) (reply p)],
                     Inl (AssertionError (GetJobStatusFailed (body (reply p))))))
        \<and> (status_code (reply p) = 200 \<and> status_title (reply p) = Inl e \<longrightarrow>
             wait_for_job endpoint hs timeout start_time r0 (p # ps) =
               Some ([Call (get_req endpoint hs) r0, Print Waiting, Print (Status s),
                      Sleep 5, Call (get_req endpoint hs) (reply p)], Inl e))
        \<and> (status_code (reply p) = 200 \<and> status_title (reply p) = Inr s'
             \<and> clock p - start_time > timeout \<longrightarrow>
             wait_for_job endpoint hs timeout start_time r0 (p # ps) =
               Some ([Call (get_req endpoint hs) r0, Print Waiting, Print (Status s),
                      Sleep 5, Call (get_req endpoint hs) (reply p),
                      Print (if s' \<noteq> s then NewStatus s' else Dot),
                      Print (Timeout timeout), Print (JobStatus s')], Inr PyNone))
        \<and> (status_code (reply p) = 200 \<and> status_title (reply p) = Inr s'
             \<and> clock p - start_time \<le> timeout \<longrightarrow>
             wait_for_job endpoint hs timeout start_time r0 (p # ps) =
               emit [Call (get_req endpoint hs) r0, Print Waiting, Print (Status s),
                     Sleep 5, Call (get_req endpoint hs) (reply p),
                     Print (if s' \<noteq> s then NewStatus s' else Dot)]
                 (poll_loop endpoint hs timeout start_time s' ps)))"
proof (intro conjI impI allI)
  assume "status_code r0 = 200 \<and> status_title r0 = Inr s \<and> s \<noteq> ''Pending'' \<and> s \<noteq> ''Running''"
  then show "wait_for_job endpoint hs timeout start_time r0 polls =
        (if s = ''Done''
         then Some ([Call (get_req endpoint hs) r0, Print Waiting, Print (Status s), Print (JobStatus s)], Inr PyNone)
         else Some ([Call (get_req endpoint hs) r0, Print Waiting, Print (Status s)],
                    Inl (AssertionError (JobFailed s))))"
    by (simp add: wait_for_job_def poll_loop_terminal)
next
  assume a: "in_progress r0 \<and> status_title r0 = Inr s"
  then show "wait_for_job endpoint hs timeout start_time r0 [] = None"
    by (auto simp: wait_for_job_def in_progress_def)
next
  fix p ps tr x
  assume a: "in_progress r0 \<and> status_title r0 = Inr s"
    and r: "wait_for_job endpoint hs timeout start_time r0 (p # ps) = Some (tr, x)"
  from a have s: "s = ''Pending'' \<or> s = ''Running''" and c: "status_code r0 = 200"
    by (auto simp: in_progress_def)
  from r a s c show "\<exists>tr'. tr = [Call (get_req endpoint hs) r0, Print Waiting, Print (Status s),
                          Sleep 5, Call (get_req endpoint hs) (reply p)] @ tr'"
    by (auto simp: wait_for_job_def emit_eq_Some)
next
  assume a: "in_progress r0 \<and> status_title r0 = Inr s" and b: "status_code (reply p) \<noteq> 200"
  from a have "s = ''Pending'' \<or> s = ''Running''" "status_code r0 = 200"
    by (auto simp: in_progress_def)
  with a b show "wait_for_job endpoint hs timeout start_time r0 (p # ps) =
               Some ([Call (get_req endpoint hs) r0, Print Waiting, Print (Status s),
                      Sleep 5, Call (get_req endpoint hs) (reply p)],
                     Inl (AssertionError (GetJobStatusFailed (body (reply p)))))"
    by (auto simp: wait_for_job_def)
next
  assume a: "in_progress r0 \<and> status_title r0 = Inr s"
    and b: "status_code (reply p) = 200 \<and> status_title (reply p) = Inl e"
  from a have "s = ''Pending'' \<or> s = ''Running''" "status_code r0 = 200"
    by (auto simp: in_progress_def)
  with a b show "wait_for_job endpoint hs timeout start_time r0 (p # ps) =
               Some ([Call (get_req endpoint hs) r0, Print Waiting, Print (Status s),
                      Sleep 5, Call (get_req endpoint hs) (reply p)], Inl e)"
    by (auto simp: wait_for_job_def)
next
  assume a: "in_progress r0 \<and> status_title r0 = Inr s"
    and b: "status_code (reply p) = 200 \<and> status_title (reply p) = Inr s'
             \<and> clock p - start_time > timeout"
  from a have "s = ''Pending'' \<or> s = ''Running''" "status_code r0 = 200"
    by (auto simp: in_progress_def)
  with a b show "wait_for_job endpoint hs timeout start_time r0 (p # ps) =
               Some ([Call (get_req endpoint hs) r0, Print Waiting, Print (Status s),
                      Sleep 5, Call (get_req endpoint hs) (reply p),
                      Print (if s' \<noteq> s then NewStatus s' else Dot),
                      Print (Timeout timeout), Print (JobStatus s')], Inr PyNone)"
    by (auto simp: wait_for_job_def Let_def)
next
  assume a: "in_progress r0 \<and> status_title r0 = Inr s"
    and b: "status_code (reply p) = 200 \<and> status_title (reply p) = Inr s'
             \<and> clock p - start_time \<le> timeout"
  from a have "s = ''Pending'' \<or> s = ''Running''" "status_code r0 = 200"
    by (auto simp: in_progress_def)
  with a b show "wait_for_job endpoint hs timeout start_time r0 (p # ps) =
               emit [Call (get_req endpoint hs) r0, Print Waiting, Print (Status s),
                     Sleep 5, Call (get_req endpoint hs) (reply p),
                     Print (if s' \<noteq> s then NewStatus s' else Dot)]
                 (poll_loop endpoint hs timeout start_time s' ps)"
    by (cases "poll_loop endpoint hs timeout start_time s' ps")
       (auto simp: wait_for_job_def Let_def)
qed

text \<open>
  Instances of C10, each a run of \<^verbatim>\<open>wait_for_job\<close>: Error at the first GET with
  timeout 0; Running at the first GET with no poll answered; Running, then a poll answered
  with status code 500; Running, then a poll whose body has no \<^verbatim>\<open>status\<close>; Running,
  then Done read 5 s after the start with timeout 0, where the timeout takes effect only
  after the sleep and the second GET; and Running, then Done read 5 s after the start with
  timeout 10.
\<close>

theorem wait_for_job_first_status_witness:
  "wait_for_job ''job'' [] 0 0 (job_reply ''Error'') []
     = Some ([Call (get_req ''job'' []) (job_reply ''Error''), Print Waiting, Print (Status ''Error'')],
             Inl (AssertionError (JobFailed ''Error'')))
   \<and> wait_for_job ''job'' [] 0 0 (job_reply ''Running'') [] = None
   \<and> wait_for_job ''job'' [] 0 0 (job_reply ''Running'')
        [\<lparr>reply = \<lparr>status_code = 500, body = JNull\<rparr>, clock = 5\<rparr>]
     = Some ([Call (get_req ''job'' []) (job_reply ''Running''), Print Waiting, Print (Status ''Running''),
              Sleep 5, Call (get_req ''job'' []) \<lparr>status_code = 500, body = JNull\<rparr>],
             Inl (AssertionError (GetJobStatusFailed JNull)))
   \<and> wait_for_job ''job'' [] 0 0 (job_reply ''Running'')
        [\<lparr>reply = \<lparr>status_code = 200, body = JObj []\<rparr>, clock = 5\<rparr>]
     = Some ([Call (get_req ''job'' []) (job_reply ''Running''), Print Waiting, Print (Status ''Running''),
              Sleep 5, Call (get_req ''job'' []) \<lparr>status_code = 200, body = JObj []\<rparr>],
             Inl (KeyError ''status''))
   \<and> wait_for_job ''job'' [] 0 0 (job_reply ''Running'') [\<lparr>reply = job_reply ''Done'', clock = 5\<rparr>]
     = Some ([Call (get_req ''job'' []) (job_reply ''Running''), Print Waiting, Print (Status ''Running''),
              Sleep 5, Call (get_req ''job'' []) (job_reply ''Done''), Print (NewStatus ''Done''),
              Print (Timeout 0), Print (JobStatus ''Done'')], Inr PyNone)
   \<and> wait_for_job ''job'' [] 10 0 (job_reply ''Running'') [\<lparr>reply = job_reply ''Done'', clock = 5\<rparr>]
     = Some ([Call (get_req ''job'' []) (job_reply ''Running''), Print Waiting, Print (Status ''Running''),
              Sleep 5, Call (get_req ''job'' []) (job_reply ''Done''), Print (NewStatus ''Done''),
              Print (JobStatus ''Done'')], Inr PyNone)
   \<and> (\<exists>tr'. wait_for_job ''job'' [] 10 0 (job_reply ''Running'')
               [\<lparr>reply = job_reply ''Done'', clock = 5\<rparr>]
            = Some ([Call (get_req ''job'' []) (job_reply ''Running''), Print Waiting,
                     Print (Status ''Running''), Sleep 5,
                     Call (get_req ''job'' []) (reply \<lparr>reply = job_reply ''Done'', clock = 5\<rparr>)] @ tr',
                    Inr PyNone))"
proof -
  let ?run = "job_reply ''Running''"
  let ?done = "\<lparr>reply = job_reply ''Done'', clock = 5\<rparr>"
  let ?e500 = "\<lparr>reply = \<lparr>status_code = 500, body = JNull\<rparr>, clock = 5\<rparr>"
  let ?nokey = "\<lparr>reply = \<lparr>status_code = 200, body = JObj []\<rparr>, clock = 5\<rparr>"
  have a: "status_code (job_reply ''Error'') = 200 \<and> status_title (job_reply ''Error'') = Inr ''Error''
           \<and> ''Error'' \<noteq> ''Pending'' \<and> ''Error'' \<noteq> ''Running''"
    by simp
  have b: "in_progress ?run \<and> status_title ?run = Inr ''Running''"
    by (simp add: in_progress_def)
  from wait_for_job_first_status [of "job_reply ''Error''" "''Error''" "''job''" "[]" 0 0 "[]",
      THEN conjunct1] a
  have 1: "wait_for_job ''job'' [] 0 0 (job_reply ''Error'') []
     = Some ([Call (get_req ''job'' []) (job_reply ''Error''), Print Waiting, Print (Status ''Error'')],
             Inl (AssertionError (JobFailed ''Error'')))"
    by simp
  note second = wait_for_job_first_status [THEN conjunct2, rule_format, OF b]
  from second [of "''job''" "[]" 0 0, THEN conjunct1]
  have 2: "wait_for_job ''job'' [] 0 0 ?run [] = None" .
  have c3: "status_code (reply ?e500) \<noteq> 200" by simp
  from second [of "''job''" "[]" 0 0 ?e500 "[]", THEN conjunct2, THEN conjunct2, THEN conjunct1,
      rule_format, OF c3]
  have 3: "wait_for_job ''job'' [] 0 0 ?run [?e500]
     = Some ([Call (get_req ''job'' []) ?run, Print Waiting, Print (Status ''Running''),
              Sleep 5, Call (get_req ''job'' []) \<lparr>status_code = 500, body = JNull\<rparr>],
             Inl (AssertionError (GetJobStatusFailed JNull)))"
    by simp
  have c4: "status_code (reply ?nokey) = 200 \<and> status_title (reply ?nokey) = Inl (KeyError ''status'')"
    by (simp add: status_title_def)
  from second [of "''job''" "[]" 0 0 ?nokey "[]" "KeyError ''status''",
      THEN conjunct2, THEN conjunct2, THEN conjunct2, THEN conjunct1, rule_format, OF c4]
  have 4: "wait_for_job ''job'' [] 0 0 ?run [?nokey]
     = Some ([Call (get_req ''job'' []) ?run, Print Waiting, Print (Status ''Running''),
              Sleep 5, Call (get_req ''job'' []) \<lparr>status_code = 200, body = JObj []\<rparr>],
             Inl (KeyError ''status''))"
    by simp
  have c5: "status_code (reply ?done) = 200 \<and> status_title (reply ?done) = Inr ''Done''
            \<and> clock ?done - 0 > 0"
    by simp
  from second [of "''job''" "[]" 0 0 ?done "[]" _ "''Done''",
      THEN conjunct2, THEN conjunct2, THEN conjunct2, THEN conjunct2, THEN conjunct1,
      rule_format, OF c5]
  have 5: "wait_for_job ''job'' [] 0 0 ?run [?done]
     = Some ([Call (get_req ''job'' []) ?run, Print Waiting, Print (Status ''Running''),
              Sleep 5, Call (get_req ''job'' []) (job_reply ''Done''), Print (NewStatus ''Done''),
              Print (Timeout 0), Print (JobStatus ''Done'')], Inr PyNone)"
    by simp
  have c6: "status_code (reply ?done) = 200 \<and> status_title (reply ?done) = Inr ''Done''
            \<and> clock ?done - 0 \<le> 10"
    by simp
  from second [of "''job''" "[]" 10 0 ?done "[]" _ "''Done''",
      THEN conjunct2, THEN conjunct2, THEN conjunct2, THEN conjunct2, THEN conjunct2,
      rule_format, OF c6]
  have 6: "wait_for_job ''job'' [] 10 0 ?run [?done]
     = Some ([Call (get_req ''job'' []) ?run, Print Waiting, Print (Status ''Running''),
              Sleep 5, Call (get_req ''job'' []) (job_reply ''Done''), Print (NewStatus ''Done''),
              Print (JobStatus ''Done'')], Inr PyNone)"
    by simp
  from second [of "''job''" "[]" 10 0, THEN conjunct2, THEN conjunct1, rule_format, OF 6]
  have 7: "\<exists>tr'. wait_for_job ''job'' [] 10 0 ?run [?done]
            = Some ([Call (get_req ''job'' []) ?run, Print Waiting, Print (Status ''Running''),
                     Sleep 5, Call (get_req ''job'' []) (reply ?done)] @ tr', Inr PyNone)"
    using 6 by auto
  from 1 2 3 4 5 6 7 show ?thesis by blast
qed

subsection \<open>The value handed back\<close>

text \<open>
  Claim C4 as stated fails: on a job that is Done at the first GET the value handed back
  is \<^verbatim>\<open>None\<close>, not the terminal status.
\<close>

theorem wait_for_job_return_value_counterexample:
  "wait_for_job ''job'' [] 1800 0 (job_reply ''Done'') []
     = Some ([Call (get_req ''job'' []) (job_reply ''Done''), Print Waiting, Print (Status ''Done''), Print (JobStatus ''Done'')], Inr PyNone)
   \<and> PyNone \<noteq> PyStr ''Done''"
  by (simp add: wait_for_job_def)

text \<open>
  Claim C4, as amended. \<^verbatim>\<open>wait_for_job\<close> has no \<^verbatim>\<open>return\<close> statement: every run that
  returns hands back \<^verbatim>\<open>None\<close>. The status is reported on the output only: the last
  line printed is \<^verbatim>\<open>Job status:\<close> with the final status, which is Done unless the line
  before it is the timeout report.
\<close>

theorem wait_for_job_returns_None:
  assumes "wait_for_job endpoint hs timeout start_time r0 polls = Some (tr, Inr v)"
  shows "v = PyNone \<and> (\<exists>tr' s. tr = tr' @ [Print (JobStatus s)] \<and> tr' \<noteq> []
                 \<and> (s = ''Done'' \<or> last tr' = Print (Timeout timeout)))"
proof -
  from assms obtain s0 tr1 where "tr = [Call (get_req endpoint hs) r0, Print Waiting, Print (Status s0)] @ tr1"
    and "poll_loop endpoint hs timeout start_time s0 polls = Some (tr1, Inr v)"
    by (auto simp: wait_for_job_def emit_eq_Some split: if_splits sum.splits)
  with poll_loop_returns [of endpoint hs timeout start_time s0 polls tr1 v] show ?thesis
    by auto
qed

text \<open>An instance of the amended C4: the job is Done at the first GET.\<close>

theorem wait_for_job_returns_None_witness:
  "wait_for_job ''job'' [] 0 0 (job_reply ''Done'') []
     = Some ([Call (get_req ''job'' []) (job_reply ''Done''), Print Waiting, Print (Status ''Done''), Print (JobStatus ''Done'')], Inr PyNone)
   \<and> (\<exists>tr' s. [Call (get_req ''job'' []) (job_reply ''Done''), Print Waiting,
                 Print (Status ''Done''), Print (JobStatus ''Done'')] = tr' @ [Print (JobStatus s)]
               \<and> tr' \<noteq> [] \<and> (s = ''Done'' \<or> last tr' = Print (Timeout 0)))"
proof -
  have e: "wait_for_job ''job'' [] 0 0 (job_reply ''Done'') []
     = Some ([Call (get_req ''job'' []) (job_reply ''Done''), Print Waiting, Print (Status ''Done''), Print (JobStatus ''Done'')], Inr PyNone)"
    by (simp add: wait_for_job_def)
  from wait_for_job_returns_None [OF e] e show ?thesis by simp
qed

subsection \<open>A failed job seen at the timeout\<close>

text \<open>
  Claim C1, at the input where it fails. The job answers Running, then Error at a poll made
  15 s after the start, with a timeout of 10 s. The timeout test of that turn leaves the
  loop before the status is looked at again: the run prints the timeout report and
  \<^verbatim>\<open>Job status: Error\<close> and returns normally, so no
  \<^verbatim>\<open>Job failed with status: Error\<close> is raised.
\<close>

theorem wait_for_job_error_at_timeout:
  "wait_for_job ''job'' [] 10 0 (job_reply ''Running'') [\<lparr>reply = job_reply ''Error'', clock = 15\<rparr>]
     = Some ([Call (get_req ''job'' []) (job_reply ''Running''), Print Waiting, Print (Status ''Running''),
              Sleep 5, Call (get_req ''job'' []) (job_reply ''Error''), Print (NewStatus ''Error''),
              Print (Timeout 10), Print (JobStatus ''Error'')], Inr PyNone)"
  by (simp add: wait_for_job_def Let_def)

section \<open>Properties of the cells\<close>

subsection \<open>Auxiliary facts\<close>

lemma and_then_Inl [simp]: "and_then (tr, Inl e) k = (tr, Inl e)"
  by (simp add: and_then_def)

lemma and_then_Inr [simp]: "and_then (tr, Inr x) k = (tr @ fst (k x), snd (k x))"
  by (simp add: and_then_def split: prod.splits)

lemma fst_and_then: "\<exists>rest. fst (and_then m k) = fst m @ rest"
  by (cases m) (auto simp: and_then_def split: sum.splits prod.splits)

lemma fst_call_expect [simp]: "fst (call_expect q r code msg) = [Call q r]"
  by (simp add: call_expect_def)

lemma preceded_nth:
  "preceded P Q tr \<Longrightarrow> i < length tr \<Longrightarrow> Q (tr ! i) \<Longrightarrow> \<exists>j<i. P (tr ! j)"
proof (induction tr arbitrary: i)
  case Nil
  then show ?case by simp
next
  case (Cons e es)
  show ?case
  proof (cases "P e")
    case True
    with Cons.prems show ?thesis
      by (cases i) (auto split: if_splits)
  next
    case False
    with Cons.prems obtain k where i: "i = Suc k" and "preceded P Q es"
      by (cases i) (auto split: if_splits)
    with Cons.prems have "\<exists>j<k. P (es ! j)"
      by (intro Cons.IH) auto
    then obtain j where "j < k" "P (es ! j)" by blast
    with i show ?thesis by (intro exI [of _ "Suc j"]) simp
  qed
qed

lemma experiment_delete_preceded:
  "preceded (job_settled (job_endpoint base_url experiment_id job_id))
     (sent DELETE (base_url @ ''/experiments/'' @ experiment_id))
     (fst (cleaning_up base_url experiment_id job_id train_dataset_id val_dataset_id hs
             r_status r_cancel r_delete r_train r_val))"
  by (cases "getitem (body r_status) ''status''")
     (auto simp: cleaning_up_def delete_experiment_def delete_datasets_def Let_def call_expect_def
        sent_def job_settled_def reported_done_def answered_200_def get_req_def post_req_def delete_req_def)

lemma dataset_delete_preceded:
  "preceded (\<lambda>e. sent DELETE (base_url @ ''/experiments/'' @ experiment_id) e \<and> answered_200 e)
     (\<lambda>e. sent DELETE (base_url @ ''/datasets/'' @ train_dataset_id) e
          \<or> sent DELETE (base_url @ ''/datasets/'' @ val_dataset_id) e)
     (fst (cleaning_up base_url experiment_id job_id train_dataset_id val_dataset_id hs
             r_status r_cancel r_delete r_train r_val))"
  by (cases "getitem (body r_status) ''status''")
     (auto simp: cleaning_up_def delete_experiment_def delete_datasets_def Let_def call_expect_def
        sent_def job_settled_def reported_done_def answered_200_def get_req_def post_req_def delete_req_def)

lemma download_job_carries:
  "list_all (carries hs) (fst (download_job base_url experiment_id job_id hs r_status r_archive r_bundle))"
  by (cases "getitem (body r_status) ''status''")
     (auto simp: download_job_def Let_def call_expect_def carries_def get_req_def)

lemma cleaning_up_carries:
  "list_all (carries hs)
     (fst (cleaning_up base_url experiment_id job_id train_dataset_id val_dataset_id hs
             r_status r_cancel r_delete r_train r_val))"
  by (cases "getitem (body r_status) ''status''")
     (auto simp: cleaning_up_def delete_experiment_def delete_datasets_def Let_def call_expect_def
        carries_def get_req_def post_req_def delete_req_def)

lemma login_trace [simp]:
  "fst (login str_py host_url ngc_api_key r) = [Call (login_req host_url ngc_api_key) r]"
  by (auto simp: login_def Let_def split: sum.splits)

lemma login_not_201:
  "status_code r \<noteq> 201 \<Longrightarrow>
   snd (login str_py host_url ngc_api_key r) = Inl (AssertionError (LoginFailed (status_code r)))"
  by (simp add: login_def)

lemma key_in_object: "(k \<in> fst ` set kvs) = (map_of kvs k \<noteq> None)"
  by (simp add: map_of_eq_None_iff)

lemma login_object:
  "status_code r = 201 \<Longrightarrow> body r = JObj kvs \<Longrightarrow>
   snd (login str_py host_url ngc_api_key r) =
     (case map_of kvs ''user_id'' of
        None \<Rightarrow> Inl (AssertionError UserIdMissing)
      | Some u \<Rightarrow>
          (case map_of kvs ''token'' of
             None \<Rightarrow> Inl (AssertionError TokenMissing)
           | Some t \<Rightarrow>
               Inr \<lparr>user_id = u, token = t,
                    session_base_url = host_url @ ''/api/v1/users/'' @ str_py u,
                    session_headers = [(''Authorization'', ''Bearer '' @ str_py t)]\<rparr>))"
  by (auto simp: login_def Let_def key_in_object split: option.splits)

lemma login_not_object:
  "status_code r = 201 \<Longrightarrow> \<forall>kvs. body r \<noteq> JObj kvs \<Longrightarrow>
   snd (login str_py host_url ngc_api_key r) = Inl AttributeError"
  by (cases "body r") (auto simp: login_def)

lemma login_success_iff:
  "snd (login str_py host_url ngc_api_key r) = Inr s \<longleftrightarrow>
     status_code r = 201
     \<and> (\<exists>kvs u t. body r = JObj kvs \<and> map_of kvs ''user_id'' = Some u \<and> map_of kvs ''token'' = Some t
          \<and> s = \<lparr>user_id = u, token = t,
                  session_base_url = host_url @ ''/api/v1/users/'' @ str_py u,
                  session_headers = [(''Authorization'', ''Bearer '' @ str_py t)]\<rparr>)"
proof (cases "status_code r = 201")
  case False
  then show ?thesis by (simp add: login_not_201)
next
  case True
  show ?thesis
  proof (cases "\<exists>kvs. body r = JObj kvs")
    case False
    with True show ?thesis by (simp add: login_not_object)
  next
    case True
    then obtain kvs where "body r = JObj kvs" by blast
    with \<open>status_code r = 201\<close> show ?thesis
      by (auto simp: login_object split: option.splits)
  qed
qed

lemma last_sort_key_max:
  assumes "xs \<noteq> []"
  shows "last (sort_key f xs) \<in> set xs \<and> (\<forall>x \<in> set xs. f x \<le> f (last (sort_key f xs)))"
proof -
  let ?ys = "sort_key f xs"
  from assms have ne: "?ys \<noteq> []" by (metis length_sort length_0_conv)
  then have "last ?ys \<in> set ?ys" by (rule last_in_set)
  then have mem: "last ?ys \<in> set xs" by (simp only: set_sort)
  have "f x \<le> f (last ?ys)" if "x \<in> set xs" for x
  proof -
    from that have "x \<in> set ?ys" by (simp only: set_sort)
    then obtain i where i: "i < length ?ys" "?ys ! i = x"
      unfolding in_set_conv_nth by blast
    have "sorted (map f ?ys)" by (rule sorted_sort_key)
    then have "map f ?ys ! i \<le> map f ?ys ! (length ?ys - 1)"
      using i(1) by (intro sorted_nth_mono) auto
    with i ne show ?thesis by (simp add: last_conv_nth)
  qed
  with mem show ?thesis by blast
qed

subsection \<open>The letter case of the status\<close>

text \<open>
  Claim C5, at the input where it fails. For the wire status \<^verbatim>\<open>done\<close> the poller, which
  title-cases, ends in success with \<^verbatim>\<open>Job status: Done\<close>; the download cell and the
  cleaning up compare the wire text itself with \<^verbatim>\<open>Done\<close>: the download is skipped and
  the finished job is cancelled, unlike for the wire status \<^verbatim>\<open>Done\<close>.
\<close>

theorem status_case_not_normalised:
  "wait_for_job ''job'' [] 1800 0 (job_reply ''done'') []
     = Some ([Call (get_req ''job'' []) (job_reply ''done''), Print Waiting, Print (Status ''Done''),
              Print (JobStatus ''Done'')], Inr PyNone)
   \<and> download_job ''b'' ''e'' ''j'' [] (job_reply ''done'') (job_reply ''x'') (job_reply ''x'')
     = ([Call (get_req ''b/experiments/e/jobs/j'' []) (job_reply ''done'')], Inr ())
   \<and> download_job ''b'' ''e'' ''j'' [] (job_reply ''Done'') (job_reply ''x'') (job_reply ''x'')
     = ([Call (get_req ''b/experiments/e/jobs/j'' []) (job_reply ''Done''),
         Call (get_req ''b/experiments/e/jobs/j:download'' []) (job_reply ''x''),
         WriteFile ''j.tar.gz'',
         Call ((get_req ''b/experiments/e/jobs/j:download'' [])
                 \<lparr>data := Some (JObj [(''export_type'', JStr ''monai_bundle'')])\<rparr>) (job_reply ''x''),
         WriteFile ''j.tar.gz''], Inr ())
   \<and> delete_experiment ''b'' ''e'' ''j'' [] (job_reply ''done'') (job_reply ''x'') (job_reply ''x'')
     = ([Call (get_req ''b/experiments/e/jobs/j'' []) (job_reply ''done''),
         Call (post_req ''b/experiments/e/jobs/j:cancel'' []) (job_reply ''x''),
         Call (delete_req ''b/experiments/e'' []) (job_reply ''x'')], Inr ())
   \<and> delete_experiment ''b'' ''e'' ''j'' [] (job_reply ''Done'') (job_reply ''x'') (job_reply ''x'')
     = ([Call (get_req ''b/experiments/e/jobs/j'' []) (job_reply ''Done''),
         Call (delete_req ''b/experiments/e'' []) (job_reply ''x'')], Inr ())"
  by (simp add: wait_for_job_def title_done download_job_def delete_experiment_def Let_def
        call_expect_def job_endpoint_def job_reply_def status_title_def)

subsection \<open>The download is behind a status check\<close>

text \<open>
  Claim C6. In both download cells a GET of \<^verbatim>\<open>...:download\<close> is in the trace exactly when
  the status read by the GET at the start of the cell is \<^verbatim>\<open>Done\<close>. Then the download is
  the request sent right after that status check; otherwise the status check is the only
  request of the cell.
\<close>

theorem download_only_when_done:
  "(list_ex (sent GET (job_endpoint base_url experiment_id job_id @ '':download''))
       (fst (download_job base_url experiment_id job_id hs r_status r_archive r_bundle))
      = (getitem (body r_status) ''status'' = Inr (JStr ''Done'')))
   \<and> (list_ex (sent GET (job_endpoint base_url experiment_id job_id @ '':download''))
       (fst (download_results base_url experiment_id job_id hs r_status r_archive))
      = (getitem (body r_status) ''status'' = Inr (JStr ''Done'')))
   \<and> (if getitem (body r_status) ''status'' = Inr (JStr ''Done'')
       then (\<exists>rest. fst (download_job base_url experiment_id job_id hs r_status r_archive r_bundle)
                = [Call (get_req (job_endpoint base_url experiment_id job_id) hs) r_status,
                   Call (get_req (job_endpoint base_url experiment_id job_id @ '':download'') hs) r_archive] @ rest)
          \<and> (\<exists>rest. fst (download_results base_url experiment_id job_id hs r_status r_archive)
                = [Call (get_req (job_endpoint base_url experiment_id job_id) hs) r_status,
                   Call (get_req (job_endpoint base_url experiment_id job_id @ '':download'') hs) r_archive] @ rest)
       else fst (download_job base_url experiment_id job_id hs r_status r_archive r_bundle)
              = [Call (get_req (job_endpoint base_url experiment_id job_id) hs) r_status]
          \<and> fst (download_results base_url experiment_id job_id hs r_status r_archive)
              = [Call (get_req (job_endpoint base_url experiment_id job_id) hs) r_status])"
  by (cases "getitem (body r_status) ''status''")
     (auto simp: download_job_def download_results_def Let_def sent_def get_req_def call_expect_def)

text \<open>An instance of C6: the status check says Running, and no download is sent.\<close>

theorem download_only_when_done_witness:
  "fst (download_job ''b'' ''e'' ''j'' [] (job_reply ''Running'') (job_reply ''x'') (job_reply ''y''))
     = [Call (get_req (job_endpoint ''b'' ''e'' ''j'') []) (job_reply ''Running'')]
   \<and> fst (download_results ''b'' ''e'' ''j'' [] (job_reply ''Running'') (job_reply ''x''))
     = [Call (get_req (job_endpoint ''b'' ''e'' ''j'') []) (job_reply ''Running'')]"
  using download_only_when_done [of "''b''" "''e''" "''j''" "[]" "job_reply ''Running''"
      "job_reply ''x''" "job_reply ''y''"]
  by (simp add: job_reply_def)

subsection \<open>The order of the deletions\<close>

text \<open>
  Claim C7. In the trace of the cleaning up, run top to bottom, a DELETE of the experiment
  comes after a GET of the job answered with status \<^verbatim>\<open>Done\<close> or after a POST of
  \<^verbatim>\<open>...:cancel\<close> answered with 200, and a DELETE of the training or of the validation
  dataset comes after a DELETE of the experiment answered with 200.
\<close>

theorem cleaning_up_order:
  assumes "tr = fst (cleaning_up base_url experiment_id job_id train_dataset_id val_dataset_id hs
                       r_status r_cancel r_delete r_train r_val)"
    and "i < length tr"
  shows "(sent DELETE (base_url @ ''/experiments/'' @ experiment_id) (tr ! i) \<longrightarrow>
           (\<exists>j<i. job_settled (job_endpoint base_url experiment_id job_id) (tr ! j)))
       \<and> (sent DELETE (base_url @ ''/datasets/'' @ train_dataset_id) (tr ! i)
            \<or> sent DELETE (base_url @ ''/datasets/'' @ val_dataset_id) (tr ! i) \<longrightarrow>
           (\<exists>j<i. sent DELETE (base_url @ ''/experiments/'' @ experiment_id) (tr ! j)
                  \<and> answered_200 (tr ! j)))"
  using assms
    preceded_nth [OF experiment_delete_preceded, of i base_url experiment_id job_id
      train_dataset_id val_dataset_id hs r_status r_cancel r_delete r_train r_val]
    preceded_nth [OF dataset_delete_preceded, of i base_url experiment_id job_id
      train_dataset_id val_dataset_id hs r_status r_cancel r_delete r_train r_val]
  by blast

text \<open>
  An instance of C7: the job is Running, so it is cancelled; the experiment is deleted at
  position 2 of the trace and the training dataset at position 3.
\<close>

theorem cleaning_up_order_witness:
  "(\<exists>j<2. job_settled (job_endpoint ''b'' ''e'' ''j'')
       (fst (cleaning_up ''b'' ''e'' ''j'' ''t'' ''v'' [] (job_reply ''Running'') (job_reply ''x'')
               (job_reply ''x'') (job_reply ''x'') (job_reply ''x'')) ! j))
   \<and> (\<exists>j<3. sent DELETE (''b'' @ ''/experiments/'' @ ''e'')
       (fst (cleaning_up ''b'' ''e'' ''j'' ''t'' ''v'' [] (job_reply ''Running'') (job_reply ''x'')
               (job_reply ''x'') (job_reply ''x'') (job_reply ''x'')) ! j)
       \<and> answered_200
       (fst (cleaning_up ''b'' ''e'' ''j'' ''t'' ''v'' [] (job_reply ''Running'') (job_reply ''x'')
               (job_reply ''x'') (job_reply ''x'') (job_reply ''x'')) ! j))"
proof -
  let ?tr = "fst (cleaning_up ''b'' ''e'' ''j'' ''t'' ''v'' [] (job_reply ''Running'') (job_reply ''x'')
               (job_reply ''x'') (job_reply ''x'') (job_reply ''x''))"
  have tr: "?tr = [Call (get_req ''b/experiments/e/jobs/j'' []) (job_reply ''Running''),
                   Call (post_req ''b/experiments/e/jobs/j:cancel'' []) (job_reply ''x''),
                   Call (delete_req ''b/experiments/e'' []) (job_reply ''x''),
                   Call (delete_req ''b/datasets/t'' []) (job_reply ''x''),
                   Call (delete_req ''b/datasets/v'' []) (job_reply ''x'')]"
    by (simp add: cleaning_up_def delete_experiment_def delete_datasets_def Let_def call_expect_def
          job_endpoint_def job_reply_def)
  have l2: "2 < length ?tr" and l3: "3 < length ?tr"
    by (simp_all add: tr)
  have d2: "sent DELETE (''b'' @ ''/experiments/'' @ ''e'') (?tr ! 2)"
    by (simp add: tr sent_def delete_req_def)
  have d3: "sent DELETE (''b'' @ ''/datasets/'' @ ''t'') (?tr ! 3)"
    by (simp add: tr sent_def delete_req_def)
  from cleaning_up_order [OF refl l2] d2
  have a: "\<exists>j<2. job_settled (job_endpoint ''b'' ''e'' ''j'') (?tr ! j)"
    by blast
  from cleaning_up_order [OF refl l3] d3
  have b: "\<exists>j<3. sent DELETE (''b'' @ ''/experiments/'' @ ''e'') (?tr ! j) \<and> answered_200 (?tr ! j)"
    by blast
  from a b show ?thesis by blast
qed

subsection \<open>Login\<close>

text \<open>
  Claim C8. The login cell succeeds exactly when the status code is 201 and the body is an
  object with the keys \<^verbatim>\<open>user_id\<close> and \<^verbatim>\<open>token\<close>; it then yields both, and the
  headers it sets are \<^verbatim>\<open>Authorization: Bearer {token}\<close>, carried by every request of
  the download and of the cleaning up run with them. Any other status code, and an object
  without \<^verbatim>\<open>user_id\<close> or without \<^verbatim>\<open>token\<close>, fails an assertion; and whatever is
  run after a failed login, the only request of the session is the login itself.
\<close>

theorem login_outcome:
  "(snd (login str_py host_url ngc_api_key r) = Inr s \<longleftrightarrow>
     status_code r = 201
     \<and> (\<exists>kvs u t. body r = JObj kvs \<and> map_of kvs ''user_id'' = Some u \<and> map_of kvs ''token'' = Some t
          \<and> s = \<lparr>user_id = u, token = t,
                  session_base_url = host_url @ ''/api/v1/users/'' @ str_py u,
                  session_headers = [(''Authorization'', ''Bearer '' @ str_py t)]\<rparr>))
   \<and> (status_code r \<noteq> 201 \<longrightarrow>
        snd (login str_py host_url ngc_api_key r) = Inl (AssertionError (LoginFailed (status_code r))))
   \<and> (status_code r = 201 \<and> body r = JObj kvs \<and> map_of kvs ''user_id'' = None \<longrightarrow>
        snd (login str_py host_url ngc_api_key r) = Inl (AssertionError UserIdMissing))
   \<and> (status_code r = 201 \<and> body r = JObj kvs \<and> map_of kvs ''user_id'' \<noteq> None
        \<and> map_of kvs ''token'' = None \<longrightarrow>
        snd (login str_py host_url ngc_api_key r) = Inl (AssertionError TokenMissing))
   \<and> (snd (login str_py host_url ngc_api_key r) = Inl e \<longrightarrow>
        and_then (login str_py host_url ngc_api_key r) k
          = ([Call (login_req host_url ngc_api_key) r], Inl e))
   \<and> (snd (login str_py host_url ngc_api_key r) = Inr s \<longrightarrow>
        list_all (carries [(''Authorization'', ''Bearer '' @ str_py (token s))])
          (fst (download_job (session_base_url s) experiment_id job_id (session_headers s)
                  r_status r_archive r_bundle))
        \<and> list_all (carries [(''Authorization'', ''Bearer '' @ str_py (token s))])
          (fst (cleaning_up (session_base_url s) experiment_id job_id train_dataset_id
                  val_dataset_id (session_headers s) r_status r_cancel r_delete r_train r_val)))"
proof (intro conjI impI)
  show "snd (login str_py host_url ngc_api_key r) = Inr s \<longleftrightarrow>
     status_code r = 201
     \<and> (\<exists>kvs u t. body r = JObj kvs \<and> map_of kvs ''user_id'' = Some u \<and> map_of kvs ''token'' = Some t
          \<and> s = \<lparr>user_id = u, token = t,
                  session_base_url = host_url @ ''/api/v1/users/'' @ str_py u,
                  session_headers = [(''Authorization'', ''Bearer '' @ str_py t)]\<rparr>)"
    by (rule login_success_iff)
next
  assume "status_code r \<noteq> 201"
  then show "snd (login str_py host_url ngc_api_key r) = Inl (AssertionError (LoginFailed (status_code r)))"
    by (rule login_not_201)
next
  assume "status_code r = 201 \<and> body r = JObj kvs \<and> map_of kvs ''user_id'' = None"
  then show "snd (login str_py host_url ngc_api_key r) = Inl (AssertionError UserIdMissing)"
    by (simp add: login_object)
next
  assume "status_code r = 201 \<and> body r = JObj kvs \<and> map_of kvs ''user_id'' \<noteq> None
        \<and> map_of kvs ''token'' = None"
  then show "snd (login str_py host_url ngc_api_key r) = Inl (AssertionError TokenMissing)"
    by (auto simp: login_object)
next
  assume "snd (login str_py host_url ngc_api_key r) = Inl e"
  then have "login str_py host_url ngc_api_key r = ([Call (login_req host_url ngc_api_key) r], Inl e)"
    by (simp add: prod_eq_iff)
  then show "and_then (login str_py host_url ngc_api_key r) k
          = ([Call (login_req host_url ngc_api_key) r], Inl e)"
    by simp
next
  assume a: "snd (login str_py host_url ngc_api_key r) = Inr s"
  then have h: "session_headers s = [(''Authorization'', ''Bearer '' @ str_py (token s))]"
    by (auto simp: login_success_iff)
  show "list_all (carries [(''Authorization'', ''Bearer '' @ str_py (token s))])
          (fst (download_job (session_base_url s) experiment_id job_id (session_headers s)
                  r_status r_archive r_bundle))"
    unfolding h by (rule download_job_carries)
  show "list_all (carries [(''Authorization'', ''Bearer '' @ str_py (token s))])
          (fst (cleaning_up (session_base_url s) experiment_id job_id train_dataset_id
                  val_dataset_id (session_headers s) r_status r_cancel r_delete r_train r_val))"
    unfolding h by (rule cleaning_up_carries)
qed

text \<open>
  Instances of C8: a 201 answer with both keys, after which the download cell sends its
  requests with the bearer token; a 401 answer, after which nothing more is sent; a 201
  answer without \<^verbatim>\<open>user_id\<close>, and one without \<^verbatim>\<open>token\<close>.
\<close>

theorem login_outcome_witness:
  "snd (login (\<lambda>j. case j of JStr s \<Rightarrow> s | _ \<Rightarrow> []) ''https://host'' ''key''
          \<lparr>status_code = 201, body = JObj [(''user_id'', JStr ''u1''), (''token'', JStr ''t1'')]\<rparr>)
     = Inr \<lparr>user_id = JStr ''u1'', token = JStr ''t1'',
            session_base_url = ''https://host/api/v1/users/u1'',
            session_headers = [(''Authorization'', ''Bearer t1'')]\<rparr>
   \<and> list_all (carries [(''Authorization'', ''Bearer t1'')])
         (fst (download_job ''https://host/api/v1/users/u1'' ''e'' ''j''
                 [(''Authorization'', ''Bearer t1'')] (job_reply ''Done'') (job_reply ''x'')
                 (job_reply ''x'')))
   \<and> snd (login (\<lambda>j. case j of JStr s \<Rightarrow> s | _ \<Rightarrow> []) ''https://host'' ''key''
          \<lparr>status_code = 401, body = JObj []\<rparr>)
     = Inl (AssertionError (LoginFailed 401))
   \<and> and_then (login (\<lambda>j. case j of JStr s \<Rightarrow> s | _ \<Rightarrow> []) ''https://host'' ''key''
          \<lparr>status_code = 401, body = JObj []\<rparr>)
        (\<lambda>s. download_job (session_base_url s) ''e'' ''j'' (session_headers s)
                (job_reply ''Done'') (job_reply ''x'') (job_reply ''x''))
     = ([Call (login_req ''https://host'' ''key'') \<lparr>status_code = 401, body = JObj []\<rparr>],
        Inl (AssertionError (LoginFailed 401)))
   \<and> snd (login (\<lambda>j. case j of JStr s \<Rightarrow> s | _ \<Rightarrow> []) ''https://host'' ''key''
          \<lparr>status_code = 201, body = JObj [(''token'', JStr ''t1'')]\<rparr>)
     = Inl (AssertionError UserIdMissing)
   \<and> snd (login (\<lambda>j. case j of JStr s \<Rightarrow> s | _ \<Rightarrow> []) ''https://host'' ''key''
          \<lparr>status_code = 201, body = JObj [(''user_id'', JStr ''u1'')]\<rparr>)
     = Inl (AssertionError TokenMissing)"
proof -
  let ?f = "\<lambda>j. case j of JStr s \<Rightarrow> s | _ \<Rightarrow> []"
  let ?ok = "\<lparr>status_code = 201, body = JObj [(''user_id'', JStr ''u1''), (''token'', JStr ''t1'')]\<rparr>"
  let ?s = "\<lparr>user_id = JStr ''u1'', token = JStr ''t1'',
            session_base_url = ''https://host/api/v1/users/u1'',
            session_headers = [(''Authorization'', ''Bearer t1'')]\<rparr>"
  let ?denied = "\<lparr>status_code = 401, body = JObj []\<rparr>"
  let ?k = "\<lambda>s. download_job (session_base_url s) ''e'' ''j'' (session_headers s)
                (job_reply ''Done'') (job_reply ''x'') (job_reply ''x'')"
  from login_outcome [of ?f "''https://host''" "''key''" ?ok ?s, THEN conjunct1]
  have 1: "snd (login ?f ''https://host'' ''key'' ?ok) = Inr ?s"
    by simp
  from login_outcome [of ?f "''https://host''" "''key''" ?ok ?s _ _ _ "''e''" "''j''"
      "job_reply ''Done''" "job_reply ''x''" "job_reply ''x''",
      THEN conjunct2, THEN conjunct2, THEN conjunct2, THEN conjunct2, THEN conjunct2] 1
  have 2: "list_all (carries [(''Authorization'', ''Bearer t1'')])
         (fst (download_job ''https://host/api/v1/users/u1'' ''e'' ''j''
                 [(''Authorization'', ''Bearer t1'')] (job_reply ''Done'') (job_reply ''x'')
                 (job_reply ''x'')))"
    by simp
  from login_outcome [of ?f "''https://host''" "''key''" ?denied, THEN conjunct2, THEN conjunct1]
  have 3: "snd (login ?f ''https://host'' ''key'' ?denied) = Inl (AssertionError (LoginFailed 401))"
    by simp
  from login_outcome [of ?f "''https://host''" "''key''" ?denied _ _
      "AssertionError (LoginFailed 401)" ?k,
      THEN conjunct2, THEN conjunct2, THEN conjunct2, THEN conjunct2, THEN conjunct1] 3
  have 4: "and_then (login ?f ''https://host'' ''key'' ?denied) ?k
     = ([Call (login_req ''https://host'' ''key'') ?denied], Inl (AssertionError (LoginFailed 401)))"
    by simp
  from login_outcome [of ?f "''https://host''" "''key''"
      "\<lparr>status_code = 201, body = JObj [(''token'', JStr ''t1'')]\<rparr>" _ "[(''token'', JStr ''t1'')]",
      THEN conjunct2, THEN conjunct2, THEN conjunct1]
  have 5: "snd (login ?f ''https://host'' ''key''
          \<lparr>status_code = 201, body = JObj [(''token'', JStr ''t1'')]\<rparr>)
     = Inl (AssertionError UserIdMissing)"
    by simp
  from login_outcome [of ?f "''https://host''" "''key''"
      "\<lparr>status_code = 201, body = JObj [(''user_id'', JStr ''u1'')]\<rparr>" _ "[(''user_id'', JStr ''u1'')]",
      THEN conjunct2, THEN conjunct2, THEN conjunct2, THEN conjunct1]
  have 6: "snd (login ?f ''https://host'' ''key''
          \<lparr>status_code = 201, body = JObj [(''user_id'', JStr ''u1'')]\<rparr>)
     = Inl (AssertionError TokenMissing)"
    by simp
  from 1 2 3 4 5 6 show ?thesis by blast
qed

subsection \<open>The latest base experiment\<close>

text \<open>
  Claim C9. When the listing is answered with 200 and some entry has the architecture
  \<^verbatim>\<open>monai_automl\<close> and the name \<^verbatim>\<open>MONAI Auto3dSeg\<close>, the id chosen is that of such an
  entry whose version is greatest among all such entries; when no entry matches, the
  cell stops at its assertion.
\<close>

theorem find_base_experiment_latest:
  assumes "listing_code response = 200"
  shows "if \<exists>p \<in> set (entries response). is_auto3dseg p
         then \<exists>p \<in> set (entries response). is_auto3dseg p
                \<and> find_base_experiment response = Inr (exp_id p)
                \<and> (\<forall>q \<in> set (entries response). is_auto3dseg q \<longrightarrow> version q \<le> version p)
         else find_base_experiment response = Inl (AssertionError NoBaseExperiment)"
proof (cases "filter is_auto3dseg (entries response) = []")
  case True
  then have "\<not> (\<exists>p \<in> set (entries response). is_auto3dseg p)"
    by (simp add: filter_empty_conv)
  with assms True show ?thesis
    by (simp add: find_base_experiment_def)
next
  case False
  let ?m = "filter is_auto3dseg (entries response)"
  let ?p = "last (sort_key version ?m)"
  from last_sort_key_max [OF False, of version]
  have p: "?p \<in> set ?m" and mx: "\<forall>x \<in> set ?m. version x \<le> version ?p"
    by blast+
  from assms False have "find_base_experiment response = Inr (exp_id ?p)"
    by (simp add: find_base_experiment_def)
  with p mx show ?thesis
    by (intro if_P [THEN iffD2] ) auto
qed

text \<open>An instance of C9: of the versions 2 and 1, the entry with version 2 is chosen.\<close>

theorem find_base_experiment_latest_witness:
  "\<exists>p \<in> set [\<lparr>exp_id = ''a'', exp_name = ''MONAI Auto3dSeg'', network_arch = ''monai_automl'', version = 2::int\<rparr>,
              \<lparr>exp_id = ''b'', exp_name = ''MONAI Auto3dSeg'', network_arch = ''monai_automl'', version = 1\<rparr>].
      is_auto3dseg p
      \<and> find_base_experiment
           \<lparr>listing_code = 200,
            entries = [\<lparr>exp_id = ''a'', exp_name = ''MONAI Auto3dSeg'', network_arch = ''monai_automl'', version = 2::int\<rparr>,
                       \<lparr>exp_id = ''b'', exp_name = ''MONAI Auto3dSeg'', network_arch = ''monai_automl'', version = 1\<rparr>]\<rparr>
          = Inr (exp_id p)
      \<and> exp_id p = ''a''"
proof -
  let ?r = "\<lparr>listing_code = 200,
            entries = [\<lparr>exp_id = ''a'', exp_name = ''MONAI Auto3dSeg'', network_arch = ''monai_automl'', version = 2::int\<rparr>,
                       \<lparr>exp_id = ''b'', exp_name = ''MONAI Auto3dSeg'', network_arch = ''monai_automl'', version = 1\<rparr>]\<rparr>"
  have c: "listing_code ?r = 200" by simp
  from find_base_experiment_latest [OF c] show ?thesis
    by (auto simp: is_auto3dseg_def)
qed

end
